theory Spec2Isabelle
  imports Complex_Main "HOL-Library.Sublist"
begin

section \<open>The match-scoring engine of de-ghoster\<close>

text \<open>
  A shallow embedding of \<^verbatim>\<open>src/services/job_matcher.py\<close> and of the records of
  \<^verbatim>\<open>src/models/data_models.py\<close> it works on. Python floats are modelled as
  \<^typ>\<open>real\<close>: every score is exact arithmetic, rounding is not modelled. Python's
  \<^verbatim>\<open>int\<close> is \<^typ>\<open>int\<close>, \<^verbatim>\<open>str\<close> is \<^typ>\<open>string\<close>, and an exception is a value
  of type \<open>error\<close> on the left of a sum.
\<close>

subsection \<open>Python string primitives\<close>

text \<open>\<^verbatim>\<open>str.lower()\<close> on the ASCII letters; other characters are unchanged.\<close>

definition lower_char :: "char \<Rightarrow> char" where
  "lower_char c =
     (let n = (of_char c :: nat) in if 65 \<le> n \<and> n \<le> 90 then char_of (n + 32) else c)"

definition lower :: "string \<Rightarrow> string" where
  "lower s = map lower_char s"

text \<open>
  \<^verbatim>\<open>str.strip()\<close> removes leading and trailing whitespace: tab, line feed, vertical
  tab, form feed, carriage return, the separators 28 to 31 and the space.
\<close>

definition is_space :: "char \<Rightarrow> bool" where
  "is_space c = (let n = (of_char c :: nat) in (9 \<le> n \<and> n \<le> 13) \<or> (28 \<le> n \<and> n \<le> 32))"

definition strip :: "string \<Rightarrow> string" where
  "strip s = rev (dropWhile is_space (rev (dropWhile is_space s)))"

text \<open>\<^verbatim>\<open>x in y\<close> on strings: \<open>x\<close> occurs in \<open>y\<close> as a contiguous block.\<close>

definition py_in :: "string \<Rightarrow> string \<Rightarrow> bool" where
  "py_in x y = sublist x y"

text \<open>\<^verbatim>\<open>sep.join(xs)\<close>.\<close>

fun join :: "string \<Rightarrow> string list \<Rightarrow> string" where
  "join sep [] = []"
| "join sep [x] = x"
| "join sep (x # y # ys) = x @ sep @ join sep (y # ys)"

text \<open>\<^verbatim>\<open>str(n)\<close> for an integer, and \<^verbatim>\<open>int(x)\<close> for a float (truncation towards zero).\<close>

fun str_nat :: "nat \<Rightarrow> string" where
  "str_nat n =
     (if n < 10 then [char_of (48 + n)] else str_nat (n div 10) @ [char_of (48 + n mod 10)])"

declare str_nat.simps [simp del]

definition str_int :: "int \<Rightarrow> string" where
  "str_int i = (if i < 0 then CHR ''-'' # str_nat (nat (- i)) else str_nat (nat i))"

definition int_of_float :: "real \<Rightarrow> int" where
  "int_of_float x = (if 0 \<le> x then \<lfloor>x\<rfloor> else \<lceil>x\<rceil>)"

subsection \<open>Data model\<close>

datatype error = Exception string | ValidationError string

fun str_error :: "error \<Rightarrow> string" where
  "str_error (Exception m) = m"
| "str_error (ValidationError m) = m"

datatype RecommendationStatus = APPLY | SKIP | MAYBE

text \<open>
  The fields of \<^verbatim>\<open>CVData\<close> and \<^verbatim>\<open>JobPosting\<close> the matcher reads. Both classes name
  their identifier \<^verbatim>\<open>id\<close>; the records name it after the class.
\<close>

record CVData =
  cvdata_id :: string
  skills :: "string list"
  experience_years :: int
  education :: "string list"
  certifications :: "string list"
  job_titles :: "string list"
  industries :: "string list"

record JobPosting =
  posting_id :: string
  title :: string
  company :: string
  description :: string
  requirements :: "string list"
  skills_required :: "string list"
  experience_required :: int
  industry :: "string option"

text \<open>
  \<^verbatim>\<open>MatchScore\<close> declares every field with \<^verbatim>\<open>Field(ge=0, le=100)\<close>: building one
  with a value outside the range raises a validation error.
\<close>

record MatchScore =
  qualification_score :: real
  competition_score :: real
  strategic_score :: real
  overall_score :: real
  confidence :: real

definition in_range :: "real \<Rightarrow> bool" where
  "in_range x = (0 \<le> x \<and> x \<le> 100)"

definition new_MatchScore :: "real \<Rightarrow> real \<Rightarrow> real \<Rightarrow> real \<Rightarrow> real \<Rightarrow> error + MatchScore" where
  "new_MatchScore q c s ov cf =
     (if in_range q \<and> in_range c \<and> in_range s \<and> in_range ov \<and> in_range cf
      then Inr \<lparr>qualification_score = q, competition_score = c, strategic_score = s,
                overall_score = ov, confidence = cf\<rparr>
      else Inl (ValidationError ''MatchScore''))"

text \<open>
  The dictionary the semantic-analysis chain returns: each key may be missing. The
  keys are those of the degraded dictionary \<^verbatim>\<open>analyze_job_match\<close> builds itself.
\<close>

record analysis_data =
  d_qualification_analysis :: "string option"
  d_competition_analysis :: "string option"
  d_strategic_analysis :: "string option"
  d_key_matches :: "string list option"
  d_gaps :: "string list option"
  d_reasoning :: "string option"
  d_confidence_factors :: "string list option"

text \<open>\<^verbatim>\<open>d.get(key, default)\<close>.\<close>

definition get_or :: "'a option \<Rightarrow> 'a \<Rightarrow> 'a" where
  "get_or v dflt = (case v of None \<Rightarrow> dflt | Some x \<Rightarrow> x)"

record qualification_details =
  skill_similarity :: real
  experience_match :: real
  education_bonus :: real
  certification_bonus :: real
  base_score :: real
  bonus_score :: real

record competition_details =
  base_competition :: real
  overqualification_penalty :: real
  unique_skills_bonus :: real
  industry_experience_bonus :: real
  leadership_bonus :: real

record strategic_details =
  base_strategic :: real
  career_growth_potential :: real
  skill_development_bonus :: real
  company_size_fit :: real
  current_level :: nat
  target_level :: nat

record analysis_metadata =
  qualification_details :: qualification_details
  competition_details :: competition_details
  strategic_details :: strategic_details
  raw_analysis_data :: analysis_data

record JobAnalysis =
  analysis_id :: string
  cv_id :: string
  job_id :: string
  match_score :: MatchScore
  recommendation :: RecommendationStatus
  reasoning :: string
  key_matches :: "string list"
  gaps :: "string list"
  metadata :: analysis_metadata

subsection \<open>Lexical similarity\<close>

text \<open>
  The TF-IDF vectorizer and the cosine similarity are scikit-learn's. The model takes
  their composition as a parameter \<open>vec\<close>: from the two joined skill texts to the
  similarity, or to the exception the call raises.
\<close>

type_synonym vectorizer = "string \<Rightarrow> string \<Rightarrow> error + real"

definition skill_hit :: "string list \<Rightarrow> string \<Rightarrow> bool" where
  "skill_hit cv_skills_lower job_skill =
     list_ex (\<lambda>cv_skill. py_in job_skill cv_skill \<or> py_in cv_skill job_skill) cv_skills_lower"

definition basic_skill_match :: "string list \<Rightarrow> string list \<Rightarrow> real" where
  "basic_skill_match cv_skills job_skills =
     (let cv_skills_lower = map (\<lambda>skill. strip (lower skill)) cv_skills;
          job_skills_lower = map (\<lambda>skill. strip (lower skill)) job_skills;
          matches = length (filter (skill_hit cv_skills_lower) job_skills_lower)
      in if job_skills_lower \<noteq> [] then real matches / real (length job_skills_lower) else 0)"

definition calculate_skill_similarity :: "vectorizer \<Rightarrow> string list \<Rightarrow> string list \<Rightarrow> real" where
  "calculate_skill_similarity vec cv_skills job_skills =
     (if cv_skills = [] \<or> job_skills = [] then 0
      else case vec (join '' '' cv_skills) (join '' '' job_skills) of
             Inr similarity \<Rightarrow> similarity
           | Inl e \<Rightarrow> basic_skill_match cv_skills job_skills)"

subsection \<open>Qualification scorer\<close>

definition calculate_experience_match :: "int \<Rightarrow> int \<Rightarrow> real" where
  "calculate_experience_match cv_experience job_experience =
     (if job_experience = 0 then 1
      else if cv_experience \<ge> job_experience then 1
      else if real_of_int cv_experience \<ge> real_of_int job_experience * 0.8 then 0.8
      else if real_of_int cv_experience \<ge> real_of_int job_experience * 0.6 then 0.6
      else if real_of_int cv_experience \<ge> real_of_int job_experience * 0.4 then 0.4
      else 0.2)"

definition education_keywords :: "string list" where
  "education_keywords = [''bachelor'', ''master'', ''phd'', ''degree'']"

text \<open>
  The generator \<^verbatim>\<open>any(edu for edu in cv.education if any(keyword in edu.lower() ...))\<close>
  yields the entries that hold a keyword and tests each for being non-empty.
\<close>

definition has_degree :: "string list \<Rightarrow> bool" where
  "has_degree edus =
     (edus \<noteq> [] \<and>
      list_ex (\<lambda>edu. edu \<noteq> [])
        (filter (\<lambda>edu. list_ex (\<lambda>keyword. py_in keyword (lower edu)) education_keywords) edus))"

definition relevant_cert :: "string list \<Rightarrow> string \<Rightarrow> bool" where
  "relevant_cert job_skills cert = list_ex (\<lambda>skill. py_in (lower skill) (lower cert)) job_skills"

definition calculate_qualification_score ::
  "vectorizer \<Rightarrow> CVData \<Rightarrow> JobPosting \<Rightarrow> real \<times> qualification_details" where
  "calculate_qualification_score vec cv job =
     (let sim = calculate_skill_similarity vec (skills cv) (skills_required job);
          exp_match = calculate_experience_match (experience_years cv) (experience_required job);
          edu_bonus = (if has_degree (education cv) then 0.1 else 0);
          cert_bonus =
            (if certifications cv \<noteq> [] then
               min 0.1
                 (real (length (filter (relevant_cert (skills_required job)) (certifications cv)))
                    * 0.05)
             else 0);
          base = (sim * 0.6 + exp_match * 0.4) * 100;
          bonus = (edu_bonus + cert_bonus) * 100;
          final_score = min 100 (base + bonus)
      in (final_score,
          \<lparr>skill_similarity = sim, experience_match = exp_match, education_bonus = edu_bonus,
           certification_bonus = cert_bonus, base_score = base, bonus_score = bonus\<rparr>))"

subsection \<open>Competition scorer\<close>

definition specialized_skills :: "string list" where
  "specialized_skills =
     [''ai'', ''machine learning'', ''blockchain'', ''quantum'', ''cloud architecture'']"

definition leadership_keywords :: "string list" where
  "leadership_keywords =
     [''lead'', ''manager'', ''director'', ''senior'', ''principal'', ''architect'']"

definition is_specialized :: "string \<Rightarrow> bool" where
  "is_specialized skill = list_ex (\<lambda>spec. py_in spec (lower skill)) specialized_skills"

definition industry_overlap :: "string \<Rightarrow> string \<Rightarrow> bool" where
  "industry_overlap job_industry cv_industry =
     (py_in (lower job_industry) (lower cv_industry) \<or>
      py_in (lower cv_industry) (lower job_industry))"

definition is_leadership :: "string \<Rightarrow> bool" where
  "is_leadership ttl = list_ex (\<lambda>keyword. py_in keyword (lower ttl)) leadership_keywords"

definition calculate_competition_score :: "CVData \<Rightarrow> JobPosting \<Rightarrow> real \<times> competition_details" where
  "calculate_competition_score cv job =
     (let base = 50;
          penalty =
            (if real_of_int (experience_years cv) > real_of_int (experience_required job) * 1.5
             then min 20 (real_of_int (experience_years cv - experience_required job) * 2)
             else 0);
          unique = min 20 (5 * real (length (filter is_specialized (skills cv))));
          ind_bonus =
            (case industry job of
               None \<Rightarrow> 0
             | Some job_industry \<Rightarrow>
                 if job_industry \<noteq> [] \<and> industries cv \<noteq> [] \<and>
                    list_ex (industry_overlap job_industry) (industries cv)
                 then 15 else 0);
          lead_bonus = (if list_ex is_leadership (job_titles cv) then 10 else 0);
          final_score = base - penalty + unique + ind_bonus + lead_bonus
      in (max 0 (min 100 final_score),
          \<lparr>base_competition = base, overqualification_penalty = penalty,
           unique_skills_bonus = unique, industry_experience_bonus = ind_bonus,
           leadership_bonus = lead_bonus\<rparr>))"

subsection \<open>Strategic scorer\<close>

definition growth_indicators :: "string list" where
  "growth_indicators = [''senior'', ''lead'', ''principal'', ''manager'', ''director'']"

definition emerging_skills :: "string list" where
  "emerging_skills =
     [''ai'', ''ml'', ''cloud'', ''devops'', ''kubernetes'', ''react'', ''python'', ''aws'']"

text \<open>
  One pass of the loop over \<^verbatim>\<open>enumerate(growth_indicators)\<close>, on the pair
  \<open>(current_level, target_level)\<close>.
\<close>

definition growth_step :: "CVData \<Rightarrow> JobPosting \<Rightarrow> nat \<times> string \<Rightarrow> nat \<times> nat \<Rightarrow> nat \<times> nat" where
  "growth_step cv job ii lv =
     (case ii of (i, indicator) \<Rightarrow> case lv of (cur, tgt) \<Rightarrow>
        (if job_titles cv \<noteq> [] \<and> list_ex (\<lambda>ttl. py_in indicator (lower ttl)) (job_titles cv)
         then max cur (i + 1) else cur,
         if py_in indicator (lower (title job)) then i + 1 else tgt))"

definition career_levels :: "CVData \<Rightarrow> JobPosting \<Rightarrow> nat \<times> nat" where
  "career_levels cv job = fold (growth_step cv job) (enumerate 0 growth_indicators) (0, 0)"

definition is_emerging :: "string \<Rightarrow> bool" where
  "is_emerging skill = list_ex (\<lambda>emerging. py_in emerging (lower skill)) emerging_skills"

definition company_size_fit_of :: "CVData \<Rightarrow> JobPosting \<Rightarrow> real" where
  "company_size_fit_of cv job =
     (if py_in ''startup'' (lower (company job)) \<or> py_in ''small'' (lower (description job))
      then (if experience_years cv < 5 then 10 else 5)
      else if py_in ''enterprise'' (lower (company job)) \<or>
              py_in ''fortune'' (lower (description job))
      then (if experience_years cv > 3 then 10 else 5)
      else 5)"

definition strategic_parts :: "CVData \<Rightarrow> JobPosting \<Rightarrow> strategic_details" where
  "strategic_parts cv job =
     (case career_levels cv job of (cur, tgt) \<Rightarrow>
        let growth = (if tgt > cur then 20 else if tgt = cur then 10 else 0);
            job_emerging_skills = length (filter is_emerging (skills_required job));
            skill_bonus =
              (if job_emerging_skills > 0 then min 15 (real job_emerging_skills * 3) else 0)
        in \<lparr>base_strategic = 60, career_growth_potential = growth,
            skill_development_bonus = skill_bonus,
            company_size_fit = company_size_fit_of cv job,
            current_level = cur, target_level = tgt\<rparr>)"

text \<open>The sum before the final clamp.\<close>

definition strategic_sum :: "strategic_details \<Rightarrow> real" where
  "strategic_sum d =
     base_strategic d + career_growth_potential d + skill_development_bonus d + company_size_fit d"

text \<open>The analysis dictionary is a parameter of the source function, which never reads it.\<close>

definition calculate_strategic_score ::
  "CVData \<Rightarrow> JobPosting \<Rightarrow> analysis_data \<Rightarrow> real \<times> strategic_details" where
  "calculate_strategic_score cv job ad =
     (let d = strategic_parts cv job in (max 0 (min 100 (strategic_sum d)), d))"

subsection \<open>Confidence estimator\<close>

text \<open>\<^verbatim>\<open>numpy.std\<close> with its default \<^verbatim>\<open>ddof=0\<close>: the population standard deviation.\<close>

definition np_mean :: "real list \<Rightarrow> real" where
  "np_mean xs = sum_list xs / real (length xs)"

definition np_std :: "real list \<Rightarrow> real" where
  "np_std xs = sqrt (np_mean (map (\<lambda>x. (x - np_mean xs)\<^sup>2) xs))"

definition qualification_adjustment :: "real \<Rightarrow> real" where
  "qualification_adjustment q =
     (if q > 80 then 15 else if q > 60 then 5 else if q < 40 then - 15 else 0)"

text \<open>The value \<^verbatim>\<open>base_confidence\<close> has when the function reaches its final clamp.\<close>

definition confidence_sum :: "real \<Rightarrow> real \<Rightarrow> real \<Rightarrow> analysis_data \<Rightarrow> real" where
  "confidence_sum q c s ad =
     (let b0 = 70 + qualification_adjustment q;
          b1 = (if length (get_or (d_key_matches ad) []) > 3 then b0 + 10 else b0);
          b2 = (if length (get_or (d_gaps ad) []) > 2 then b1 - 10 else b1);
          score_variance = np_std [q, c, s]
      in if score_variance > 20 then b2 - 10 else b2)"

definition calculate_confidence :: "real \<Rightarrow> real \<Rightarrow> real \<Rightarrow> analysis_data \<Rightarrow> real" where
  "calculate_confidence q c s ad = max 20 (min 95 (confidence_sum q c s ad))"

subsection \<open>Recommendation rule\<close>

definition determine_recommendation :: "real \<Rightarrow> real \<Rightarrow> real \<Rightarrow> RecommendationStatus" where
  "determine_recommendation ov cf q =
     (if ov \<ge> 75 \<and> cf \<ge> 70 then APPLY
      else if ov \<ge> 60 \<and> q \<ge> 60 then APPLY
      else if ov \<ge> 45 \<and> cf \<ge> 60 then MAYBE
      else SKIP)"

subsection \<open>Aggregator\<close>

text \<open>
  The semantic-analysis chain is LangChain's; the model takes it as a parameter
  \<open>chain\<close> from the keyword arguments of \<^verbatim>\<open>chain.run\<close> to the dictionary it returns,
  or to the exception it raises.
\<close>

record chain_inputs =
  in_cv_skills :: string
  in_cv_experience :: int
  in_cv_education :: string
  in_cv_roles :: string
  in_cv_industries :: string
  in_job_title :: string
  in_job_skills :: string
  in_job_experience :: int
  in_job_requirements :: string
  in_job_industry :: string

type_synonym chain = "chain_inputs \<Rightarrow> error + analysis_data"

definition chain_request :: "CVData \<Rightarrow> JobPosting \<Rightarrow> chain_inputs" where
  "chain_request cv job =
     \<lparr>in_cv_skills = join '', '' (skills cv),
      in_cv_experience = experience_years cv,
      in_cv_education = join '', '' (education cv),
      in_cv_roles = join '', '' (job_titles cv),
      in_cv_industries = join '', '' (industries cv),
      in_job_title = title job,
      in_job_skills = join '', '' (skills_required job),
      in_job_experience = experience_required job,
      in_job_requirements = join '', '' (requirements job),
      in_job_industry =
        (case industry job of None \<Rightarrow> ''Not specified''
         | Some i \<Rightarrow> if i = [] then ''Not specified'' else i)\<rparr>"

definition degraded_analysis :: "error \<Rightarrow> analysis_data" where
  "degraded_analysis e =
     \<lparr>d_qualification_analysis = Some (''Analysis error: '' @ str_error e),
      d_competition_analysis = Some ''Unable to analyze competition factors'',
      d_strategic_analysis = Some ''Unable to analyze strategic factors'',
      d_key_matches = Some [],
      d_gaps = Some [],
      d_reasoning = Some (''Analysis failed due to error: '' @ str_error e),
      d_confidence_factors = Some []\<rparr>"

definition semantic_analysis :: "chain \<Rightarrow> CVData \<Rightarrow> JobPosting \<Rightarrow> analysis_data" where
  "semantic_analysis ch cv job =
     (case ch (chain_request cv job) of Inr ad \<Rightarrow> ad | Inl e \<Rightarrow> degraded_analysis e)"

definition weighted_overall :: "real \<Rightarrow> real \<Rightarrow> real \<Rightarrow> real" where
  "weighted_overall q c s = q * 0.6 + c * 0.25 + s * 0.15"

definition analyze_job_match :: "vectorizer \<Rightarrow> chain \<Rightarrow> CVData \<Rightarrow> JobPosting \<Rightarrow> error + JobAnalysis" where
  "analyze_job_match vec ch cv job =
     (let ad = semantic_analysis ch cv job;
          qd = calculate_qualification_score vec cv job;
          cd = calculate_competition_score cv job;
          sd = calculate_strategic_score cv job ad;
          ov = weighted_overall (fst qd) (fst cd) (fst sd);
          cf = calculate_confidence (fst qd) (fst cd) (fst sd) ad;
          rec = determine_recommendation ov cf (fst qd)
      in case new_MatchScore (fst qd) (fst cd) (fst sd) ov cf of
           Inl e \<Rightarrow> Inl e
         | Inr ms \<Rightarrow>
             Inr \<lparr>analysis_id =
                    ''analysis_'' @ cvdata_id cv @ ''_'' @ posting_id job @ ''_'' @
                      str_int (int_of_float ov),
                  cv_id = cvdata_id cv,
                  job_id = posting_id job,
                  match_score = ms,
                  recommendation = rec,
                  reasoning = get_or (d_reasoning ad) ''No reasoning provided'',
                  key_matches = get_or (d_key_matches ad) [],
                  gaps = get_or (d_gaps ad) [],
                  metadata =
                    \<lparr>qualification_details = snd qd, competition_details = snd cd,
                     strategic_details = snd sd, raw_analysis_data = ad\<rparr>\<rparr>)"

section \<open>The specification's formulations\<close>

text \<open>
  The definitions of this section follow the words of the specification; the theorems
  below compare them with the functions of the code.
\<close>

subsection \<open>Recommendation rule as an ordered rule list\<close>

fun first_match :: "(('a \<Rightarrow> bool) \<times> 'b) list \<Rightarrow> 'b \<Rightarrow> 'a \<Rightarrow> 'b" where
  "first_match [] dflt x = dflt"
| "first_match ((p, r) # rules) dflt x = (if p x then r else first_match rules dflt x)"

definition recommendation_rules ::
  "((real \<times> real \<times> real \<Rightarrow> bool) \<times> RecommendationStatus) list" where
  "recommendation_rules =
     [(\<lambda>(ov, cf, q). ov \<ge> 75 \<and> cf \<ge> 70, APPLY),
      (\<lambda>(ov, cf, q). ov \<ge> 60 \<and> q \<ge> 60, APPLY),
      (\<lambda>(ov, cf, q). ov \<ge> 45 \<and> cf \<ge> 60, MAYBE)]"

subsection \<open>Confidence as a clamped sum of four adjustments\<close>

definition population_std3 :: "real \<Rightarrow> real \<Rightarrow> real \<Rightarrow> real" where
  "population_std3 q c s =
     (let m = (q + c + s) / 3 in sqrt (((q - m)\<^sup>2 + (c - m)\<^sup>2 + (s - m)\<^sup>2) / 3))"

definition spec_confidence :: "real \<Rightarrow> real \<Rightarrow> real \<Rightarrow> analysis_data \<Rightarrow> real" where
  "spec_confidence q c s ad =
     (let a = (if q > 80 then 15 else if 60 < q \<and> q \<le> 80 then 5
               else if q < 40 then - 15 else 0);
          b = (if length (get_or (d_key_matches ad) []) > 3 then 10 else 0);
          g = (if length (get_or (d_gaps ad) []) > 2 then - 10 else 0);
          d = (if population_std3 q c s > 20 then - 10 else 0)
      in max 20 (min 95 (70 + a + b + g + d)))"

subsection \<open>Lexical similarity: the contract of the vectorizer and the fallback\<close>

text \<open>
  The entries of TF-IDF vectors are not negative, so their cosine similarity is not
  negative; the theorems that need it assume it of the parameter.
\<close>

definition nonneg_valued :: "vectorizer \<Rightarrow> bool" where
  "nonneg_valued vec = (\<forall>a b r. vec a b = Inr r \<longrightarrow> 0 \<le> r)"


text \<open>The same fraction on skills that are lower-cased and then trimmed of whitespace.\<close>

definition normalize_skill :: "string \<Rightarrow> string" where
  "normalize_skill s = strip (lower s)"

definition trimmed_fallback :: "string list \<Rightarrow> string list \<Rightarrow> real" where
  "trimmed_fallback cand req =
     real (length (filter
        (\<lambda>r. \<exists>c\<in>set cand.
           py_in (normalize_skill r) (normalize_skill c) \<or>
           py_in (normalize_skill c) (normalize_skill r)) req))
       / real (length req)"

text \<open>
  A vectorizer whose every call raises, as scikit-learn's does on texts that leave no
  term of two or more characters.
\<close>

definition failing_vectorizer :: vectorizer where
  "failing_vectorizer a b = Inl (Exception ''empty vocabulary'')"


subsection \<open>Company-size signals of a posting\<close>

definition startup_signal :: "JobPosting \<Rightarrow> bool" where
  "startup_signal job =
     (py_in ''startup'' (lower (company job)) \<or> py_in ''small'' (lower (description job)))"

definition enterprise_signal :: "JobPosting \<Rightarrow> bool" where
  "enterprise_signal job =
     (py_in ''enterprise'' (lower (company job)) \<or> py_in ''fortune'' (lower (description job)))"

subsection \<open>Sample inputs\<close>

text \<open>An analysis dictionary with no key at all.\<close>

definition empty_analysis :: analysis_data where
  "empty_analysis =
     \<lparr>d_qualification_analysis = None, d_competition_analysis = None,
      d_strategic_analysis = None, d_key_matches = None, d_gaps = None,
      d_reasoning = None, d_confidence_factors = None\<rparr>"

text \<open>A posting that signals both a startup and an enterprise, and a candidate of 6 years.\<close>

definition both_signals_job :: JobPosting where
  "both_signals_job =
     \<lparr>posting_id = ''j2'', title = ''Engineer'', company = ''Enterprise Startup Labs'',
      description = ''Backed by a Fortune 500 group'', requirements = [],
      skills_required = [''cobol''], experience_required = 4, industry = None\<rparr>"

definition six_year_cv :: CVData where
  "six_year_cv =
     \<lparr>cvdata_id = ''cv2'', skills = [''cobol''], experience_years = 6, education = [],
      certifications = [], job_titles = [''Director of Engineering''],
      industries = []\<rparr>"

text \<open>A junior candidate and a senior startup posting with five emerging skills.\<close>

definition junior_cv :: CVData where
  "junior_cv =
     \<lparr>cvdata_id = ''cv3'', skills = [''python''], experience_years = 2, education = [],
      certifications = [], job_titles = [''Developer''], industries = []\<rparr>"

definition senior_startup_job :: JobPosting where
  "senior_startup_job =
     \<lparr>posting_id = ''j3'', title = ''Senior Engineer'', company = ''Acme Startup'',
      description = ''Build things'', requirements = [],
      skills_required = [''Python'', ''AWS'', ''React'', ''Kubernetes'', ''DevOps''],
      experience_required = 1, industry = None\<rparr>"

subsection \<open>Qualification score in the specification's words\<close>

definition spec_experience_match :: "int \<Rightarrow> int \<Rightarrow> real" where
  "spec_experience_match cand req =
     (if req = 0 \<or> cand \<ge> req then 1
      else if real_of_int cand \<ge> 0.8 * real_of_int req then 0.8
      else if real_of_int cand \<ge> 0.6 * real_of_int req then 0.6
      else if real_of_int cand \<ge> 0.4 * real_of_int req then 0.4
      else 0.2)"

definition spec_education_bonus :: "string list \<Rightarrow> real" where
  "spec_education_bonus edus =
     (if \<exists>edu\<in>set edus. \<exists>keyword\<in>set [''bachelor'', ''master'', ''phd'', ''degree''].
           py_in keyword (lower edu)
      then 10 else 0)"

definition spec_certification_bonus :: "string list \<Rightarrow> string list \<Rightarrow> real" where
  "spec_certification_bonus certs req_skills =
     min 10 (5 * real (length (filter
        (\<lambda>cert. \<exists>skill\<in>set req_skills. py_in (lower skill) (lower cert)) certs)))"

definition spec_qualification_score :: "vectorizer \<Rightarrow> CVData \<Rightarrow> JobPosting \<Rightarrow> real" where
  "spec_qualification_score vec cv job =
     (let base =
            (calculate_skill_similarity vec (skills cv) (skills_required job) * 0.6
             + spec_experience_match (experience_years cv) (experience_required job) * 0.4)
            * 100
      in min 100
           (base + spec_education_bonus (education cv)
            + spec_certification_bonus (certifications cv) (skills_required job)))"

text \<open>The candidate and the posting of the specification's first scenario.\<close>

definition scenario_cv :: CVData where
  "scenario_cv =
     \<lparr>cvdata_id = ''cv1'', skills = [''python'', ''aws'', ''docker''], experience_years = 6,
      education = [''BSc Degree in Computing''], certifications = [''Python Institute PCAP''],
      job_titles = [''Developer''], industries = [''fintech'']\<rparr>"

definition scenario_job :: JobPosting where
  "scenario_job =
     \<lparr>posting_id = ''j1'', title = ''Engineer'', company = ''Acme'',
      description = ''Payments platform'', requirements = [],
      skills_required = [''python'', ''kubernetes''], experience_required = 5,
      industry = Some ''fintech''\<rparr>"

text \<open>A vectorizer that finds the similarity \<open>r\<close> on every pair of texts.\<close>

definition constant_vectorizer :: "real \<Rightarrow> vectorizer" where
  "constant_vectorizer r a b = Inr r"

subsection \<open>Competition score in the specification's words\<close>

text \<open>
  Where the specification does not say how letter case is treated (specialized skills,
  leadership keywords) the definitions test the lower-cased text, as for the industry.
\<close>

definition spec_overqualification_penalty :: "int \<Rightarrow> int \<Rightarrow> real" where
  "spec_overqualification_penalty cand req =
     (if real_of_int cand > 1.5 * real_of_int req then min 20 (2 * real_of_int (cand - req))
      else 0)"

definition spec_unique_skills_bonus :: "string list \<Rightarrow> real" where
  "spec_unique_skills_bonus cand_skills =
     min 20 (5 * real (length (filter
        (\<lambda>skill. \<exists>spec\<in>set [''ai'', ''machine learning'', ''blockchain'', ''quantum'',
                              ''cloud architecture'']. py_in spec (lower skill))
        cand_skills)))"

definition spec_leadership_bonus :: "string list \<Rightarrow> real" where
  "spec_leadership_bonus titles =
     (if \<exists>ttl\<in>set titles. \<exists>keyword\<in>set [''lead'', ''manager'', ''director'', ''senior'',
                                           ''principal'', ''architect'']. py_in keyword (lower ttl)
      then 10 else 0)"

text \<open>
  The industry bonus as worded: 15 exactly when the job industry and some candidate
  industry contain each other in either direction, on lower-cased text.
\<close>

definition spec_industry_bonus :: "string option \<Rightarrow> string list \<Rightarrow> real" where
  "spec_industry_bonus job_industry cand_industries =
     (case job_industry of
        None \<Rightarrow> 0
      | Some ji \<Rightarrow>
          if \<exists>ci\<in>set cand_industries.
               py_in (lower ji) (lower ci) \<or> py_in (lower ci) (lower ji)
          then 15 else 0)"

text \<open>The industry bonus with the guard of the code: an empty job industry earns nothing.\<close>

definition guarded_industry_bonus :: "string option \<Rightarrow> string list \<Rightarrow> real" where
  "guarded_industry_bonus job_industry cand_industries =
     (case job_industry of
        None \<Rightarrow> 0
      | Some ji \<Rightarrow>
          if ji \<noteq> [] \<and>
             (\<exists>ci\<in>set cand_industries.
                py_in (lower ji) (lower ci) \<or> py_in (lower ci) (lower ji))
          then 15 else 0)"

definition clamp_score :: "real \<Rightarrow> real" where
  "clamp_score x = max 0 (min 100 x)"

definition spec_competition_score :: "CVData \<Rightarrow> JobPosting \<Rightarrow> real" where
  "spec_competition_score cv job =
     clamp_score
       (50 - spec_overqualification_penalty (experience_years cv) (experience_required job)
        + spec_unique_skills_bonus (skills cv)
        + spec_industry_bonus (industry job) (industries cv)
        + spec_leadership_bonus (job_titles cv))"

definition guarded_competition_score :: "CVData \<Rightarrow> JobPosting \<Rightarrow> real" where
  "guarded_competition_score cv job =
     clamp_score
       (50 - spec_overqualification_penalty (experience_years cv) (experience_required job)
        + spec_unique_skills_bonus (skills cv)
        + guarded_industry_bonus (industry job) (industries cv)
        + spec_leadership_bonus (job_titles cv))"

text \<open>A posting whose industry is the empty string, and a candidate from fintech.\<close>

definition blank_industry_job :: JobPosting where
  "blank_industry_job =
     \<lparr>posting_id = ''j4'', title = ''Engineer'', company = ''Acme'',
      description = ''Payments platform'', requirements = [], skills_required = [],
      experience_required = 0, industry = Some ''''\<rparr>"

definition fintech_cv :: CVData where
  "fintech_cv =
     \<lparr>cvdata_id = ''cv4'', skills = [], experience_years = 0, education = [],
      certifications = [], job_titles = [], industries = [''fintech'']\<rparr>"

subsection \<open>Sample collaborators\<close>

text \<open>A semantic-analysis chain whose call raises, and one that returns a fixed dictionary.\<close>

definition failing_chain :: chain where
  "failing_chain request = Inl (Exception ''request timed out'')"

definition constant_chain :: "analysis_data \<Rightarrow> chain" where
  "constant_chain ad request = Inr ad"

text \<open>An analysis dictionary that lists four key matches and three gaps.\<close>

definition rich_analysis :: analysis_data where
  "rich_analysis =
     \<lparr>d_qualification_analysis = Some ''strong'', d_competition_analysis = Some ''average'',
      d_strategic_analysis = Some ''good'',
      d_key_matches = Some [''python'', ''aws'', ''sql'', ''docker''],
      d_gaps = Some [''kubernetes'', ''go'', ''terraform''],
      d_reasoning = Some ''solid match'', d_confidence_factors = Some []\<rparr>"

section \<open>Properties\<close>

subsection \<open>Recommendation\<close>

text \<open>
  C2. The recommendation is a function of the overall score, the confidence and the
  qualification score alone, and it is the first-match-wins evaluation of the three
  rules in order, with Skip when none applies. At overall 75 and confidence 70 the
  result is Apply whatever the qualification score; at overall 74.9 and confidence 70
  the first rule fails and the later rules decide: Apply when the qualification score is
  at least 60, Maybe otherwise.
\<close>

theorem determine_recommendation_first_match:
  "determine_recommendation ov cf q = first_match recommendation_rules SKIP (ov, cf, q)
   \<and> determine_recommendation 75 70 q = APPLY
   \<and> determine_recommendation 74.9 70 q = (if q \<ge> 60 then APPLY else MAYBE)"
  by (simp add: determine_recommendation_def recommendation_rules_def)

theorem determine_recommendation_first_match_witness:
  "determine_recommendation 44 95 100 = SKIP
   \<and> determine_recommendation 75 70 100 = APPLY
   \<and> determine_recommendation 74.9 70 100 = APPLY"
proof -
  have "first_match recommendation_rules SKIP (44 :: real, 95 :: real, 100 :: real) = SKIP"
    by (simp add: recommendation_rules_def)
  then show ?thesis
    using determine_recommendation_first_match [of 44 95 100] by simp
qed

subsection \<open>Lexical similarity\<close>

lemma basic_skill_match_trimmed:
  "basic_skill_match cv_skills job_skills = trimmed_fallback cv_skills job_skills"
  by (simp add: basic_skill_match_def trimmed_fallback_def skill_hit_def normalize_skill_def
      Let_def filter_map o_def list_ex_iff)

lemma trimmed_fallback_range:
  "0 \<le> trimmed_fallback cand req \<and> trimmed_fallback cand req \<le> 1"
proof -
  let ?n = "length (filter (\<lambda>r. \<exists>c\<in>set cand.
              py_in (normalize_skill r) (normalize_skill c) \<or>
              py_in (normalize_skill c) (normalize_skill r)) req)"
  have "?n \<le> length req" by (rule length_filter_le)
  then have "real ?n / real (length req) \<le> 1"
    by (simp add: divide_le_eq_1)
  moreover have "0 \<le> real ?n / real (length req)" by simp
  ultimately show ?thesis unfolding trimmed_fallback_def by blast
qed

lemma calculate_skill_similarity_nonneg:
  assumes "nonneg_valued vec"
  shows "0 \<le> calculate_skill_similarity vec cv_skills job_skills"
proof (cases "cv_skills = [] \<or> job_skills = []")
  case True
  then show ?thesis by (auto simp: calculate_skill_similarity_def)
next
  case False
  show ?thesis
  proof (cases "vec (join '' '' cv_skills) (join '' '' job_skills)")
    case (Inl e)
    with False show ?thesis
      using trimmed_fallback_range [of cv_skills job_skills]
      by (simp add: calculate_skill_similarity_def basic_skill_match_trimmed)
  next
    case (Inr r)
    with assms have "0 \<le> r" unfolding nonneg_valued_def by blast
    with False Inr show ?thesis by (simp add: calculate_skill_similarity_def)
  qed
qed

lemma nonneg_valued_failing: "nonneg_valued failing_vectorizer"
  by (simp add: nonneg_valued_def failing_vectorizer_def)




subsection \<open>Confidence\<close>

lemma np_std_three: "np_std [q, c, s] = population_std3 q c s"
  by (simp add: np_std_def np_mean_def population_std3_def Let_def add.assoc)

lemma confidence_sum_bounds:
  "35 \<le> confidence_sum q c s ad \<and> confidence_sum q c s ad \<le> 95"
  by (simp add: confidence_sum_def qualification_adjustment_def Let_def)

text \<open>
  C6. The confidence is the clamp to [20, 95] of 70 plus four adjustments: for the
  qualification score (+15 above 80, +5 above 60 up to 80, -15 below 40, none from 40 to
  60), +10 for more than 3 key matches, -10 for more than 2 gaps, and -10 when the
  population standard deviation of the three dimension scores exceeds 20. The result
  lies in [20, 95].
\<close>

theorem calculate_confidence_spec:
  "calculate_confidence q c s ad = spec_confidence q c s ad
   \<and> 20 \<le> calculate_confidence q c s ad \<and> calculate_confidence q c s ad \<le> 95"
proof -
  have "calculate_confidence q c s ad = spec_confidence q c s ad"
    by (simp add: calculate_confidence_def confidence_sum_def spec_confidence_def
        qualification_adjustment_def np_std_three Let_def)
  moreover have "20 \<le> calculate_confidence q c s ad" "calculate_confidence q c s ad \<le> 95"
    by (simp_all add: calculate_confidence_def)
  ultimately show ?thesis by simp
qed

lemma std_spread_wide: "population_std3 0 100 100 > 20"
  by (simp add: population_std3_def Let_def power2_eq_square real_less_rsqrt)

lemma std_spread_flat: "\<not> population_std3 85 85 85 > 20"
  by (simp add: population_std3_def Let_def)

theorem calculate_confidence_spec_witness:
  "calculate_confidence 85 85 85 rich_analysis = 85
   \<and> spec_confidence 85 85 85 rich_analysis = 85
   \<and> spec_confidence 0 100 100 empty_analysis = 45"
proof -
  have a: "spec_confidence 85 85 85 rich_analysis = 85"
    using std_spread_flat
    by (simp add: spec_confidence_def rich_analysis_def get_or_def Let_def)
  have b: "spec_confidence 0 100 100 empty_analysis = 45"
    using std_spread_wide
    by (simp add: spec_confidence_def empty_analysis_def get_or_def Let_def)
  show ?thesis
    using calculate_confidence_spec [of 85 85 85 rich_analysis] a b by simp
qed

text \<open>
  C10. The adjustments never take the sum below 35 (nor above 95), so the lower clamp
  at 20 never acts: the confidence is the sum itself, and it lies in [35, 95].
\<close>

theorem calculate_confidence_at_least_35:
  "35 \<le> confidence_sum q c s ad
   \<and> calculate_confidence q c s ad = confidence_sum q c s ad
   \<and> 35 \<le> calculate_confidence q c s ad \<and> calculate_confidence q c s ad \<le> 95"
  using confidence_sum_bounds [of q c s ad]
  by (simp add: calculate_confidence_def)

theorem calculate_confidence_at_least_35_witness:
  "confidence_sum 0 100 100 rich_analysis = 45
   \<and> calculate_confidence 0 100 100 rich_analysis = 45
   \<and> 35 \<le> calculate_confidence 0 100 100 rich_analysis"
proof -
  have "confidence_sum 0 100 100 rich_analysis = 45"
    using std_spread_wide
    by (simp add: confidence_sum_def qualification_adjustment_def np_std_three rich_analysis_def
        get_or_def Let_def)
  then show ?thesis
    using calculate_confidence_at_least_35 [of 0 100 100 rich_analysis] by simp
qed

subsection \<open>Strategic score\<close>

lemma strategic_fit:
  "company_size_fit (snd (calculate_strategic_score cv job ad)) = company_size_fit_of cv job"
  by (simp add: calculate_strategic_score_def strategic_parts_def Let_def split: prod.splits)

text \<open>
  C8. The company-size fit is 5 or 10. When the posting signals a startup, the startup
  branch alone decides, whether or not the posting also signals an enterprise: 10 for
  fewer than 5 years of experience, else 5. When it signals no startup and signals an
  enterprise, the fit is 10 for more than 3 years, else 5. With neither signal it is 5.
\<close>

theorem company_size_fit_branches:
  "(startup_signal job \<longrightarrow>
      company_size_fit (snd (calculate_strategic_score cv job ad))
        = (if experience_years cv < 5 then 10 else 5))
   \<and> (\<not> startup_signal job \<and> enterprise_signal job \<longrightarrow>
      company_size_fit (snd (calculate_strategic_score cv job ad))
        = (if experience_years cv > 3 then 10 else 5))
   \<and> (\<not> startup_signal job \<and> \<not> enterprise_signal job \<longrightarrow>
      company_size_fit (snd (calculate_strategic_score cv job ad)) = 5)
   \<and> (company_size_fit (snd (calculate_strategic_score cv job ad)) = 5
      \<or> company_size_fit (snd (calculate_strategic_score cv job ad)) = 10)"
  by (simp add: strategic_fit company_size_fit_of_def startup_signal_def enterprise_signal_def)

theorem company_size_fit_branches_witness:
  "startup_signal both_signals_job \<and> enterprise_signal both_signals_job
   \<and> experience_years six_year_cv > 3
   \<and> company_size_fit (snd (calculate_strategic_score six_year_cv both_signals_job empty_analysis))
       = 5"
proof -
  have s: "startup_signal both_signals_job" by code_simp
  have e: "enterprise_signal both_signals_job" by code_simp
  have y: "experience_years six_year_cv = 6" by (simp add: six_year_cv_def)
  show ?thesis
    using company_size_fit_branches [of both_signals_job six_year_cv empty_analysis] s e y
    by simp
qed

lemma company_size_fit_of_bounds:
  "5 \<le> company_size_fit_of cv job \<and> company_size_fit_of cv job \<le> 10"
  by (simp add: company_size_fit_of_def)

lemma strategic_sum_bounds:
  "65 \<le> strategic_sum (strategic_parts cv job) \<and> strategic_sum (strategic_parts cv job) \<le> 105"
proof -
  obtain cur tgt where lv: "career_levels cv job = (cur, tgt)"
    by (cases "career_levels cv job") blast
  define growth :: real where "growth = (if tgt > cur then 20 else if tgt = cur then 10 else 0)"
  define n where "n = length (filter is_emerging (skills_required job))"
  define bonus :: real where "bonus = (if n > 0 then min 15 (real n * 3) else 0)"
  have g: "0 \<le> growth \<and> growth \<le> 20" by (simp add: growth_def)
  have b: "0 \<le> bonus \<and> bonus \<le> 15" by (simp add: bonus_def)
  have f: "5 \<le> company_size_fit_of cv job \<and> company_size_fit_of cv job \<le> 10"
    by (rule company_size_fit_of_bounds)
  have "strategic_sum (strategic_parts cv job) = 60 + growth + bonus + company_size_fit_of cv job"
    by (simp add: strategic_sum_def strategic_parts_def lv Let_def growth_def bonus_def n_def)
  with g b f show ?thesis by linarith
qed

text \<open>
  C9. The sum before the clamp lies in [65, 105], so the strategic score lies in
  [65, 100], the lower clamp never acts, and the upper clamp does act: the junior
  candidate on the senior startup posting reaches the sum 105 and the score 100.
\<close>

theorem strategic_score_range:
  "65 \<le> fst (calculate_strategic_score cv job ad)
   \<and> fst (calculate_strategic_score cv job ad) \<le> 100
   \<and> fst (calculate_strategic_score cv job ad)
       = min 100 (strategic_sum (snd (calculate_strategic_score cv job ad)))
   \<and> 65 \<le> strategic_sum (snd (calculate_strategic_score cv job ad))
   \<and> strategic_sum (snd (calculate_strategic_score cv job ad)) \<le> 105
   \<and> strategic_sum (snd (calculate_strategic_score junior_cv senior_startup_job ad)) = 105
   \<and> fst (calculate_strategic_score junior_cv senior_startup_job ad) = 100"
proof -
  have top: "strategic_sum (strategic_parts junior_cv senior_startup_job) = 105"
    by code_simp
  show ?thesis
    using strategic_sum_bounds [of cv job] top
    by (simp add: calculate_strategic_score_def Let_def)
qed

theorem strategic_score_range_witness:
  "fst (calculate_strategic_score six_year_cv both_signals_job empty_analysis) = 65
   \<and> 65 \<le> fst (calculate_strategic_score six_year_cv both_signals_job empty_analysis)
   \<and> fst (calculate_strategic_score junior_cv senior_startup_job empty_analysis) = 100"
proof -
  have low: "strategic_sum (strategic_parts six_year_cv both_signals_job) = 65"
    by code_simp
  show ?thesis
    using strategic_score_range [of six_year_cv both_signals_job empty_analysis] low
    by (simp add: calculate_strategic_score_def Let_def)
qed

subsection \<open>Qualification score\<close>

lemma experience_match_spec:
  "calculate_experience_match cand req = spec_experience_match cand req"
  by (simp add: calculate_experience_match_def spec_experience_match_def mult.commute)

lemma has_degree_spec:
  "(if has_degree edus then (10::real) else 0) = spec_education_bonus edus"
proof -
  have nonempty: "py_in keyword (lower edu) \<Longrightarrow> keyword \<in> set education_keywords \<Longrightarrow> edu \<noteq> []"
    for keyword edu
    by (auto simp: education_keywords_def py_in_def lower_def)
  have "has_degree edus \<longleftrightarrow>
        (\<exists>edu\<in>set edus. \<exists>keyword\<in>set education_keywords. py_in keyword (lower edu))"
    using nonempty by (auto simp: has_degree_def list_ex_iff)
  then show ?thesis
    by (simp add: spec_education_bonus_def education_keywords_def)
qed

lemma certification_bonus_spec:
  "(if certs \<noteq> [] then min 0.1 (real (length (filter (relevant_cert req) certs)) * 0.05) else 0)
     * (100::real)
   = spec_certification_bonus certs req"
proof -
  have f: "filter (relevant_cert req) certs
           = filter (\<lambda>cert. \<exists>skill\<in>set req. py_in (lower skill) (lower cert)) certs"
    by (rule filter_cong) (simp_all add: relevant_cert_def list_ex_iff)
  show ?thesis
    by (cases "certs = []") (simp_all add: spec_certification_bonus_def f min_def)
qed

text \<open>
  C4. The qualification score is the minimum of 100 and the sum of the base (skill
  similarity weighted 0.6 plus the experience staircase weighted 0.4, times 100), the
  education bonus (10 when some education entry holds one of the four keywords in its
  lower-cased text) and the certification bonus (5 per certification whose lower-cased
  text contains a lower-cased required skill, at most 10).
\<close>

theorem qualification_score_spec:
  "fst (calculate_qualification_score vec cv job) = spec_qualification_score vec cv job"
proof -
  have e: "(if has_degree (education cv) then (0.1::real) else 0) * 100
           = spec_education_bonus (education cv)"
    using has_degree_spec [of "education cv"] by (simp split: if_splits)
  have "fst (calculate_qualification_score vec cv job)
        = min 100
            ((calculate_skill_similarity vec (skills cv) (skills_required job) * 0.6
              + calculate_experience_match (experience_years cv) (experience_required job) * 0.4)
               * 100
             + ((if has_degree (education cv) then (0.1::real) else 0) * 100
                + (if certifications cv \<noteq> [] then
                     min 0.1 (real (length (filter (relevant_cert (skills_required job))
                        (certifications cv))) * 0.05)
                   else 0) * 100))"
    by (simp add: calculate_qualification_score_def Let_def distrib_right)
  then show ?thesis
    by (simp only: e certification_bonus_spec experience_match_spec
        spec_qualification_score_def Let_def add.assoc)
qed

theorem qualification_score_spec_witness:
  "spec_qualification_score (constant_vectorizer (1 / 2)) scenario_cv scenario_job = 85
   \<and> fst (calculate_qualification_score (constant_vectorizer (1 / 2)) scenario_cv scenario_job)
       = 85"
proof -
  have "spec_qualification_score (constant_vectorizer (1 / 2)) scenario_cv scenario_job = 85"
    by code_simp
  then show ?thesis
    using qualification_score_spec [of "constant_vectorizer (1 / 2)" scenario_cv scenario_job]
    by simp
qed
subsection \<open>Competition score\<close>

lemma unique_skills_spec:
  "min 20 (5 * real (length (filter is_specialized cand_skills)))
   = spec_unique_skills_bonus cand_skills"
proof -
  have "filter is_specialized cand_skills
        = filter (\<lambda>skill. \<exists>spec\<in>set specialized_skills. py_in spec (lower skill)) cand_skills"
    by (rule filter_cong) (simp_all add: is_specialized_def list_ex_iff)
  then show ?thesis
    by (simp add: spec_unique_skills_bonus_def specialized_skills_def)
qed

lemma leadership_spec:
  "(if list_ex is_leadership titles then (10::real) else 0) = spec_leadership_bonus titles"
proof -
  have "list_ex is_leadership titles \<longleftrightarrow>
        (\<exists>ttl\<in>set titles. \<exists>keyword\<in>set leadership_keywords. py_in keyword (lower ttl))"
    by (simp add: list_ex_iff is_leadership_def)
  then show ?thesis
    by (simp add: spec_leadership_bonus_def leadership_keywords_def)
qed

lemma industry_guarded:
  "(case job_industry of
      None \<Rightarrow> (0::real)
    | Some ji \<Rightarrow>
        if ji \<noteq> [] \<and> cand_industries \<noteq> [] \<and> list_ex (industry_overlap ji) cand_industries
        then 15 else 0)
   = guarded_industry_bonus job_industry cand_industries"
proof (cases job_industry)
  case None
  then show ?thesis by (simp add: guarded_industry_bonus_def)
next
  case (Some ji)
  have "cand_industries \<noteq> [] \<and> list_ex (industry_overlap ji) cand_industries \<longleftrightarrow>
        (\<exists>ci\<in>set cand_industries. py_in (lower ji) (lower ci) \<or> py_in (lower ci) (lower ji))"
    by (auto simp: list_ex_iff industry_overlap_def)
  with Some show ?thesis by (simp add: guarded_industry_bonus_def)
qed

lemma overqualification_spec:
  "(if real_of_int cand > real_of_int req * 1.5 then min 20 (real_of_int (cand - req) * 2) else 0)
   = spec_overqualification_penalty cand req"
  by (simp add: spec_overqualification_penalty_def mult.commute)

text \<open>
  C5, as the code has it. The competition score is the clamp to [0, 100] of 50, less
  the overqualification penalty, plus the unique-skills bonus, the leadership bonus, and
  an industry bonus of 15 that is earned exactly when the job industry is present and
  not empty and it and some candidate industry contain each other in either direction,
  on lower-cased text.
\<close>

theorem competition_score_guarded:
  "fst (calculate_competition_score cv job) = guarded_competition_score cv job"
proof -
  have "fst (calculate_competition_score cv job)
        = max 0 (min 100
            (50
             - (if real_of_int (experience_years cv) > real_of_int (experience_required job) * 1.5
                then min 20 (real_of_int (experience_years cv - experience_required job) * 2)
                else 0)
             + min 20 (5 * real (length (filter is_specialized (skills cv))))
             + (case industry job of
                  None \<Rightarrow> 0
                | Some ji \<Rightarrow>
                    if ji \<noteq> [] \<and> industries cv \<noteq> [] \<and>
                       list_ex (industry_overlap ji) (industries cv)
                    then 15 else 0)
             + (if list_ex is_leadership (job_titles cv) then 10 else 0)))"
    by (simp add: calculate_competition_score_def Let_def)
  then show ?thesis
    by (simp only: overqualification_spec unique_skills_spec industry_guarded leadership_spec
        guarded_competition_score_def clamp_score_def)
qed

theorem competition_score_guarded_witness:
  "guarded_competition_score scenario_cv scenario_job = 65
   \<and> fst (calculate_competition_score scenario_cv scenario_job) = 65"
proof -
  have "guarded_competition_score scenario_cv scenario_job = 65"
    by code_simp
  then show ?thesis
    using competition_score_guarded [of scenario_cv scenario_job] by simp
qed

text \<open>
  C5, as the specification words the industry bonus: the empty string is contained in
  every candidate industry, so the worded bonus is earned and the worded score is 65,
  while the code, which skips an empty job industry, returns 50.
\<close>

theorem competition_score_blank_industry:
  "fst (calculate_competition_score fintech_cv blank_industry_job) = 50
   \<and> spec_competition_score fintech_cv blank_industry_job = 65
   \<and> fst (calculate_competition_score fintech_cv blank_industry_job)
       \<noteq> spec_competition_score fintech_cv blank_industry_job"
proof -
  have "fst (calculate_competition_score fintech_cv blank_industry_job) = 50"
    by code_simp
  moreover have "spec_competition_score fintech_cv blank_industry_job = 65"
    by code_simp
  ultimately show ?thesis by simp
qed

subsection \<open>Aggregator\<close>

lemma experience_match_nonneg: "0 \<le> calculate_experience_match cand req"
  by (simp add: calculate_experience_match_def)

lemma qualification_in_range:
  assumes "nonneg_valued vec"
  shows "in_range (fst (calculate_qualification_score vec cv job))"
proof -
  define sim where "sim = calculate_skill_similarity vec (skills cv) (skills_required job)"
  define ex where "ex = calculate_experience_match (experience_years cv) (experience_required job)"
  define edu :: real where "edu = (if has_degree (education cv) then 0.1 else 0)"
  define cert :: real where
    "cert = (if certifications cv \<noteq> [] then
               min 0.1 (real (length (filter (relevant_cert (skills_required job))
                  (certifications cv))) * 0.05)
             else 0)"
  have s: "0 \<le> sim" using calculate_skill_similarity_nonneg [OF assms] by (simp add: sim_def)
  have e: "0 \<le> ex" by (simp add: ex_def experience_match_nonneg)
  have b: "0 \<le> edu" "0 \<le> cert" by (simp_all add: edu_def cert_def)
  have eq: "fst (calculate_qualification_score vec cv job)
        = min 100 ((sim * 0.6 + ex * 0.4) * 100 + (edu + cert) * 100)"
    by (simp add: calculate_qualification_score_def Let_def sim_def ex_def edu_def cert_def)
  have "0 \<le> (sim * 0.6 + ex * 0.4) * 100 + (edu + cert) * 100"
    using s e b by simp
  then show ?thesis by (simp add: eq in_range_def)
qed

lemma competition_in_range: "in_range (fst (calculate_competition_score cv job))"
  by (simp add: calculate_competition_score_def Let_def in_range_def)

lemma strategic_in_range: "in_range (fst (calculate_strategic_score cv job ad))"
  by (simp add: calculate_strategic_score_def Let_def in_range_def)

lemma confidence_in_range: "in_range (calculate_confidence q c s ad)"
  unfolding calculate_confidence_def in_range_def by linarith

lemma weighted_overall_in_range:
  "in_range q \<Longrightarrow> in_range c \<Longrightarrow> in_range s \<Longrightarrow> in_range (weighted_overall q c s)"
  by (simp add: in_range_def weighted_overall_def)

lemma analyze_job_match_returns:
  assumes "nonneg_valued vec"
  shows "analyze_job_match vec ch cv job =
     Inr \<lparr>analysis_id =
            ''analysis_'' @ cvdata_id cv @ ''_'' @ posting_id job @ ''_'' @
              str_int (int_of_float (weighted_overall
                (fst (calculate_qualification_score vec cv job))
                (fst (calculate_competition_score cv job))
                (fst (calculate_strategic_score cv job (semantic_analysis ch cv job))))),
          cv_id = cvdata_id cv,
          job_id = posting_id job,
          match_score =
            \<lparr>qualification_score = fst (calculate_qualification_score vec cv job),
             competition_score = fst (calculate_competition_score cv job),
             strategic_score = fst (calculate_strategic_score cv job (semantic_analysis ch cv job)),
             overall_score = weighted_overall
                (fst (calculate_qualification_score vec cv job))
                (fst (calculate_competition_score cv job))
                (fst (calculate_strategic_score cv job (semantic_analysis ch cv job))),
             confidence = calculate_confidence
                (fst (calculate_qualification_score vec cv job))
                (fst (calculate_competition_score cv job))
                (fst (calculate_strategic_score cv job (semantic_analysis ch cv job)))
                (semantic_analysis ch cv job)\<rparr>,
          recommendation = determine_recommendation
             (weighted_overall
                (fst (calculate_qualification_score vec cv job))
                (fst (calculate_competition_score cv job))
                (fst (calculate_strategic_score cv job (semantic_analysis ch cv job))))
             (calculate_confidence
                (fst (calculate_qualification_score vec cv job))
                (fst (calculate_competition_score cv job))
                (fst (calculate_strategic_score cv job (semantic_analysis ch cv job)))
                (semantic_analysis ch cv job))
             (fst (calculate_qualification_score vec cv job)),
          reasoning = get_or (d_reasoning (semantic_analysis ch cv job)) ''No reasoning provided'',
          key_matches = get_or (d_key_matches (semantic_analysis ch cv job)) [],
          gaps = get_or (d_gaps (semantic_analysis ch cv job)) [],
          metadata =
            \<lparr>qualification_details = snd (calculate_qualification_score vec cv job),
             competition_details = snd (calculate_competition_score cv job),
             strategic_details = snd (calculate_strategic_score cv job (semantic_analysis ch cv job)),
             raw_analysis_data = semantic_analysis ch cv job\<rparr>\<rparr>"
proof -
  have q: "in_range (fst (calculate_qualification_score vec cv job))"
    by (rule qualification_in_range [OF assms])
  have ov: "in_range (weighted_overall
                (fst (calculate_qualification_score vec cv job))
                (fst (calculate_competition_score cv job))
                (fst (calculate_strategic_score cv job (semantic_analysis ch cv job))))"
    by (rule weighted_overall_in_range [OF q competition_in_range strategic_in_range])
  show ?thesis
    unfolding analyze_job_match_def Let_def new_MatchScore_def
    by (simp only: q ov competition_in_range strategic_in_range confidence_in_range
        simp_thms if_True sum.case)
qed

lemma analyze_job_match_weighted:
  assumes "analyze_job_match vec ch cv job = Inr ja"
  shows "overall_score (match_score ja)
         = weighted_overall (qualification_score (match_score ja))
             (competition_score (match_score ja)) (strategic_score (match_score ja))"
  using assms
  unfolding analyze_job_match_def Let_def new_MatchScore_def
  by (auto split: if_splits)

text \<open>
  C1. Whenever \<open>analyze_job_match\<close> assembles a result, the overall score stored in its
  match score is 0.6 times the stored qualification score plus 0.25 times the stored
  competition score plus 0.15 times the stored strategic score; and it does assemble a
  result for every resume and posting when the vectorizer's similarities are not negative.
\<close>

theorem overall_score_weighted:
  "(\<forall>ja. analyze_job_match vec ch cv job = Inr ja \<longrightarrow>
       overall_score (match_score ja)
         = 0.6 * qualification_score (match_score ja)
           + 0.25 * competition_score (match_score ja)
           + 0.15 * strategic_score (match_score ja))
   \<and> (nonneg_valued vec \<longrightarrow> (\<exists>ja. analyze_job_match vec ch cv job = Inr ja))"
proof (intro conjI allI impI)
  fix ja
  assume "analyze_job_match vec ch cv job = Inr ja"
  from analyze_job_match_weighted [OF this]
  show "overall_score (match_score ja)
         = 0.6 * qualification_score (match_score ja)
           + 0.25 * competition_score (match_score ja)
           + 0.15 * strategic_score (match_score ja)"
    by (simp add: weighted_overall_def)
next
  assume "nonneg_valued vec"
  from analyze_job_match_returns [OF this, of ch cv job]
  show "\<exists>ja. analyze_job_match vec ch cv job = Inr ja" by blast
qed

lemma nonneg_valued_constant: "0 \<le> r \<Longrightarrow> nonneg_valued (constant_vectorizer r)"
  by (simp add: nonneg_valued_def constant_vectorizer_def)

theorem overall_score_weighted_witness:
  "nonneg_valued (constant_vectorizer (1 / 2))
   \<and> (\<exists>ja. analyze_job_match (constant_vectorizer (1 / 2)) (constant_chain rich_analysis)
               scenario_cv scenario_job = Inr ja
          \<and> qualification_score (match_score ja) = 85
          \<and> competition_score (match_score ja) = 65
          \<and> strategic_score (match_score ja) = 81
          \<and> overall_score (match_score ja) = 794 / 10)"
proof -
  have u: "nonneg_valued (constant_vectorizer (1 / 2))"
    by (rule nonneg_valued_constant) simp
  have q: "fst (calculate_qualification_score (constant_vectorizer (1 / 2)) scenario_cv scenario_job)
           = 85"
    by code_simp
  have c: "fst (calculate_competition_score scenario_cv scenario_job) = 65"
    by code_simp
  have s: "fst (calculate_strategic_score scenario_cv scenario_job
             (semantic_analysis (constant_chain rich_analysis) scenario_cv scenario_job)) = 81"
    by code_simp
  from overall_score_weighted
    [of "constant_vectorizer (1 / 2)" "constant_chain rich_analysis" scenario_cv scenario_job] u
  obtain ja where ja:
      "analyze_job_match (constant_vectorizer (1 / 2)) (constant_chain rich_analysis)
         scenario_cv scenario_job = Inr ja"
    and ov: "overall_score (match_score ja)
         = 0.6 * qualification_score (match_score ja)
           + 0.25 * competition_score (match_score ja)
           + 0.15 * strategic_score (match_score ja)"
    by blast
  from ja analyze_job_match_returns
    [OF u, of "constant_chain rich_analysis" scenario_cv scenario_job]
  have parts: "qualification_score (match_score ja) = 85"
    "competition_score (match_score ja) = 65" "strategic_score (match_score ja) = 81"
    using q c s by auto
  with ov have "overall_score (match_score ja) = 794 / 10" by simp
  with u ja parts show ?thesis by blast
qed

lemma confidence_degraded:
  "calculate_confidence q c s (degraded_analysis e) = calculate_confidence q c s empty_analysis"
  by (simp add: calculate_confidence_def confidence_sum_def degraded_analysis_def
      empty_analysis_def get_or_def)

lemma strategic_ignores_analysis:
  "calculate_strategic_score cv job ad = calculate_strategic_score cv job ad'"
  by (simp add: calculate_strategic_score_def)

lemma semantic_analysis_failure:
  "ch (chain_request cv job) = Inl e \<Longrightarrow> semantic_analysis ch cv job = degraded_analysis e"
  by (simp add: semantic_analysis_def)

text \<open>
  C3. When the semantic-analysis call raises, \<open>analyze_job_match\<close> still returns a
  job analysis (given a vectorizer whose similarities are not negative): its key matches
  and gaps are empty, its reasoning is the failure notice followed by the text of the
  exception, and its five numeric fields lie in [0, 100] and are those the rule-based
  scorers give, the strategic score and the confidence being what an analysis
  dictionary with no key at all would give.
\<close>

theorem adapter_failure_degrades:
  "nonneg_valued vec \<and> ch (chain_request cv job) = Inl e \<longrightarrow>
     (\<exists>ja. analyze_job_match vec ch cv job = Inr ja
        \<and> key_matches ja = [] \<and> gaps ja = []
        \<and> reasoning ja = ''Analysis failed due to error: '' @ str_error e
        \<and> py_in (str_error e) (reasoning ja)
        \<and> raw_analysis_data (metadata ja) = degraded_analysis e
        \<and> qualification_score (match_score ja) = fst (calculate_qualification_score vec cv job)
        \<and> competition_score (match_score ja) = fst (calculate_competition_score cv job)
        \<and> strategic_score (match_score ja)
            = fst (calculate_strategic_score cv job empty_analysis)
        \<and> overall_score (match_score ja)
            = weighted_overall (fst (calculate_qualification_score vec cv job))
                (fst (calculate_competition_score cv job))
                (fst (calculate_strategic_score cv job empty_analysis))
        \<and> confidence (match_score ja)
            = calculate_confidence (fst (calculate_qualification_score vec cv job))
                (fst (calculate_competition_score cv job))
                (fst (calculate_strategic_score cv job empty_analysis)) empty_analysis
        \<and> in_range (qualification_score (match_score ja))
        \<and> in_range (competition_score (match_score ja))
        \<and> in_range (strategic_score (match_score ja))
        \<and> in_range (overall_score (match_score ja))
        \<and> in_range (confidence (match_score ja)))"
proof
  assume a: "nonneg_valued vec \<and> ch (chain_request cv job) = Inl e"
  then have u: "nonneg_valued vec" and ad: "semantic_analysis ch cv job = degraded_analysis e"
    by (simp_all add: semantic_analysis_failure)
  have st: "calculate_strategic_score cv job (degraded_analysis e)
            = calculate_strategic_score cv job empty_analysis"
    by (rule strategic_ignores_analysis)
  have q: "in_range (fst (calculate_qualification_score vec cv job))"
    by (rule qualification_in_range [OF u])
  have ov: "in_range (weighted_overall (fst (calculate_qualification_score vec cv job))
                (fst (calculate_competition_score cv job))
                (fst (calculate_strategic_score cv job empty_analysis)))"
    by (rule weighted_overall_in_range [OF q competition_in_range strategic_in_range])
  have r: "py_in (str_error e) (''Analysis failed due to error: '' @ str_error e)"
    unfolding py_in_def by (rule sublist_append_leftI)
  have d: "d_key_matches (degraded_analysis e) = Some []" "d_gaps (degraded_analysis e) = Some []"
    "d_reasoning (degraded_analysis e) = Some (''Analysis failed due to error: '' @ str_error e)"
    by (simp_all add: degraded_analysis_def)
  show "\<exists>ja. analyze_job_match vec ch cv job = Inr ja
        \<and> key_matches ja = [] \<and> gaps ja = []
        \<and> reasoning ja = ''Analysis failed due to error: '' @ str_error e
        \<and> py_in (str_error e) (reasoning ja)
        \<and> raw_analysis_data (metadata ja) = degraded_analysis e
        \<and> qualification_score (match_score ja) = fst (calculate_qualification_score vec cv job)
        \<and> competition_score (match_score ja) = fst (calculate_competition_score cv job)
        \<and> strategic_score (match_score ja)
            = fst (calculate_strategic_score cv job empty_analysis)
        \<and> overall_score (match_score ja)
            = weighted_overall (fst (calculate_qualification_score vec cv job))
                (fst (calculate_competition_score cv job))
                (fst (calculate_strategic_score cv job empty_analysis))
        \<and> confidence (match_score ja)
            = calculate_confidence (fst (calculate_qualification_score vec cv job))
                (fst (calculate_competition_score cv job))
                (fst (calculate_strategic_score cv job empty_analysis)) empty_analysis
        \<and> in_range (qualification_score (match_score ja))
        \<and> in_range (competition_score (match_score ja))
        \<and> in_range (strategic_score (match_score ja))
        \<and> in_range (overall_score (match_score ja))
        \<and> in_range (confidence (match_score ja))"
    unfolding analyze_job_match_returns [OF u] ad st confidence_degraded
    using q ov r d competition_in_range strategic_in_range confidence_in_range
    by (simp add: get_or_def)
qed

theorem adapter_failure_degrades_witness:
  "nonneg_valued failing_vectorizer
   \<and> failing_chain (chain_request scenario_cv scenario_job) = Inl (Exception ''request timed out'')
   \<and> (\<exists>ja. analyze_job_match failing_vectorizer failing_chain scenario_cv scenario_job = Inr ja
          \<and> key_matches ja = [] \<and> gaps ja = []
          \<and> reasoning ja = ''Analysis failed due to error: request timed out''
          \<and> qualification_score (match_score ja) = 85
          \<and> competition_score (match_score ja) = 65
          \<and> strategic_score (match_score ja) = 81
          \<and> overall_score (match_score ja) = 794 / 10)"
proof -
  have f: "failing_chain (chain_request scenario_cv scenario_job)
           = Inl (Exception ''request timed out'')"
    by (simp add: failing_chain_def)
  have q: "fst (calculate_qualification_score failing_vectorizer scenario_cv scenario_job) = 85"
    by code_simp
  have c: "fst (calculate_competition_score scenario_cv scenario_job) = 65"
    by code_simp
  have s: "fst (calculate_strategic_score scenario_cv scenario_job empty_analysis) = 81"
    by code_simp
  from adapter_failure_degrades
    [of failing_vectorizer failing_chain scenario_cv scenario_job
       "Exception ''request timed out''"] nonneg_valued_failing f
  show ?thesis
    by (auto simp: q c s weighted_overall_def)
qed

end
